theory Spec2Isabelle
  imports Main "HOL-Library.Sublist" "HOL-Library.List_Lexorder" "HOL-Library.Char_ord"
begin

section \<open>Exceptions\<close>

text \<open>
  The exceptions that \<^verbatim>\<open>handle_create_pdf.py\<close> raises itself or receives from the
  Python runtime and \<^verbatim>\<open>pathlib\<close>. \<open>AlreadyProcessingError\<close> is the module's own class;
  \<open>ServiceError\<close> stands for whatever an external client (HTTP session, Textract, S3)
  raises. Every one of them is a subclass of \<^verbatim>\<open>Exception\<close>.
\<close>

datatype error =
    AlreadyProcessingError
  | FileExistsError
  | FileNotFoundError
  | NotADirectoryError
  | IsADirectoryError
  | TypeError
  | NameError string
  | AttributeError string
  | KeyError string
  | ServiceError string

section \<open>Paths\<close>

text \<open>
  A \<^verbatim>\<open>pathlib.Path\<close> is modelled by its \<^verbatim>\<open>parts\<close>: the list of its components, the
  first of which is the root (\<open>''/''\<close>) when the path is absolute. Two paths compare as
  their part lists do, which on lists of strings is the lexicographic order of
  \<open>List_Lexorder\<close> over the byte order of \<open>Char_ord\<close>.
\<close>

type_synonym path = "string list"

fun split_on :: "char \<Rightarrow> string \<Rightarrow> string list" where
  "split_on c [] = [[]]"
| "split_on c (x # xs) =
     (if x = c then [] # split_on c xs
      else (case split_on c xs of [] \<Rightarrow> [[x]] | w # ws \<Rightarrow> (x # w) # ws))"

definition root_of :: "string \<Rightarrow> path" where
  "root_of s =
     (if take 2 s = ''//'' \<and> take 3 s \<noteq> ''///'' then [''//'']
      else if take 1 s = ''/'' then [''/'']
      else [])"

definition parse_parts :: "string \<Rightarrow> path" where
  "parse_parts s = root_of s @ [w \<leftarrow> split_on (CHR ''/'') s. w \<noteq> [] \<and> w \<noteq> ''.'']"

text \<open>\<^verbatim>\<open>path / s\<close>: an absolute right operand replaces the left one.\<close>

definition Path_div :: "path \<Rightarrow> string \<Rightarrow> path" where
  "Path_div p s = (if take 1 s = ''/'' then parse_parts s else p @ parse_parts s)"

text \<open>
  \<^verbatim>\<open>Path(a, b, ...)\<close>. An argument that is \<^verbatim>\<open>None\<close> (an environment variable that is not
  set) raises \<^verbatim>\<open>TypeError\<close>.
\<close>

definition Path :: "string option list \<Rightarrow> error + path" where
  "Path args = (case those args of None \<Rightarrow> Inl TypeError | Some ss \<Rightarrow> Inr (foldl Path_div [] ss))"

definition is_anchor :: "path \<Rightarrow> bool" where
  "is_anchor p = (p = [''/''] \<or> p = [''//''])"

definition Path_parent :: "path \<Rightarrow> path" where
  "Path_parent p = (if p = [] \<or> is_anchor p then p else butlast p)"

definition Path_name :: "path \<Rightarrow> string" where
  "Path_name p = (if p = [] \<or> is_anchor p then [] else last p)"

section \<open>The file system\<close>

text \<open>
  The file system is the list of its entries, each a path with the kind of node there, in
  the order in which a directory scan yields them. The working directory is the entry
  \<open>[]\<close>. Symbolic links, permissions and \<open>..\<close> are not modelled.
\<close>

datatype node = File | Dir

type_synonym filesystem = "(path \<times> node) list"

definition Path_exists :: "filesystem \<Rightarrow> path \<Rightarrow> bool" where
  "Path_exists fsys p = (map_of fsys p \<noteq> None)"

definition Path_is_dir :: "filesystem \<Rightarrow> path \<Rightarrow> bool" where
  "Path_is_dir fsys p = (map_of fsys p = Some Dir)"

definition scandir :: "filesystem \<Rightarrow> path \<Rightarrow> path list" where
  "scandir fsys d = [q \<leftarrow> map fst fsys. q \<noteq> [] \<and> butlast q = d]"

text \<open>The shell pattern language of \<^verbatim>\<open>glob\<close>, without character classes.\<close>

fun fnmatch :: "string \<Rightarrow> string \<Rightarrow> bool" where
  "fnmatch [] [] = True"
| "fnmatch [] (c # cs) = False"
| "fnmatch (p # ps) [] = (p = CHR ''*'' \<and> fnmatch ps [])"
| "fnmatch (p # ps) (c # cs) =
     (if p = CHR ''*'' then fnmatch ps (c # cs) \<or> fnmatch (p # ps) cs
      else if p = CHR ''?'' then fnmatch ps cs
      else p = c \<and> fnmatch ps cs)"

text \<open>
  \<^verbatim>\<open>d.glob(pattern)\<close> for a pattern of one component: the entries of \<open>d\<close> whose name
  matches; nothing when \<open>d\<close> is not a directory.
\<close>

definition Path_glob :: "filesystem \<Rightarrow> path \<Rightarrow> string \<Rightarrow> path list" where
  "Path_glob fsys d pat =
     (if Path_is_dir fsys d then [q \<leftarrow> scandir fsys d. fnmatch pat (last q)] else [])"

text \<open>
  \<^verbatim>\<open>os.mkdir\<close> behind \<^verbatim>\<open>Path.mkdir(exist_ok=...)\<close> with \<^verbatim>\<open>parents=False\<close>, and
  \<^verbatim>\<open>Path.touch(exist_ok=...)\<close>, whose \<^verbatim>\<open>exist_ok\<close> is \<^verbatim>\<open>True\<close> unless the caller says
  otherwise, and \<^verbatim>\<open>Path.unlink()\<close>.
\<close>

definition create_node :: "filesystem \<Rightarrow> path \<Rightarrow> node \<Rightarrow> error + filesystem" where
  "create_node fsys p n =
     (case map_of fsys (Path_parent p) of
        None \<Rightarrow> Inl FileNotFoundError
      | Some File \<Rightarrow> Inl NotADirectoryError
      | Some Dir \<Rightarrow> Inr (fsys @ [(p, n)]))"

definition fs_mkdir :: "bool \<Rightarrow> filesystem \<Rightarrow> path \<Rightarrow> error + filesystem" where
  "fs_mkdir exist_ok fsys p =
     (case map_of fsys p of
        Some n \<Rightarrow> (if exist_ok \<and> n = Dir then Inr fsys else Inl FileExistsError)
      | None \<Rightarrow> create_node fsys p Dir)"

definition fs_touch :: "bool \<Rightarrow> filesystem \<Rightarrow> path \<Rightarrow> error + filesystem" where
  "fs_touch exist_ok fsys p =
     (case map_of fsys p of
        Some n \<Rightarrow> (if exist_ok then Inr fsys else Inl FileExistsError)
      | None \<Rightarrow> create_node fsys p File)"

definition fs_unlink :: "filesystem \<Rightarrow> path \<Rightarrow> error + filesystem" where
  "fs_unlink fsys p =
     (case map_of fsys p of
        None \<Rightarrow> Inl FileNotFoundError
      | Some Dir \<Rightarrow> Inl IsADirectoryError
      | Some File \<Rightarrow> Inr [e \<leftarrow> fsys. fst e \<noteq> p])"

section \<open>Page collection\<close>

definition collect_tiff_filepaths :: "filesystem \<Rightarrow> path \<Rightarrow> path list" where
  "collect_tiff_filepaths fsys root_dir =
     (let master_edited_dir = Path_div root_dir ''master_edited'';
          master_dir = Path_div root_dir ''master'';
          file_list = (if Path_is_dir fsys master_edited_dir
                       then Path_glob fsys master_edited_dir ''*.tiff''
                       else Path_glob fsys master_dir ''*.tiff'')
      in sort file_list)"

section \<open>The world outside the process\<close>

text \<open>
  A transaction record is a JSON object: its items in order. The tracking service, the OCR
  engine and the object store are parameters; each answer may depend on everything that
  happened before (the trace). A response's \<^verbatim>\<open>json()\<close> is what the body parses to, or the
  error of parsing it.
\<close>

type_synonym transaction = "(string \<times> string) list"

datatype response = Response "error + transaction list"

datatype event =
    HttpGet string
  | HttpPost string "string option"
  | DetectDocumentText path
  | UploadFile string "string option" string
  | LogError error
  | LogAlreadyProcessing "string option"

record services =
  session_get :: "event list \<Rightarrow> string \<Rightarrow> error + response"
  session_post :: "event list \<Rightarrow> string \<Rightarrow> string option \<Rightarrow> error + response"
  boto3_client :: "error + unit"
  Textractor :: "error + unit"
  detect_document_text :: "event list \<Rightarrow> path \<Rightarrow> error + string"
  upload_file :: "event list \<Rightarrow> string \<Rightarrow> string option \<Rightarrow> string \<Rightarrow> error + unit"

text \<open>
  The state the program acts on: the file system, the calls made and lines logged so far,
  and the documents written (the path of each with its pages).
\<close>

record world =
  fs :: filesystem
  trace :: "event list"
  documents :: "(path \<times> (path \<times> string) list) list"

type_synonym env = "string \<Rightarrow> string option"

section \<open>Statements that may raise\<close>

text \<open>
  A statement takes the world and gives back a value or the exception raised, with the
  world as it is at that point: what was done before a raise stays done.
\<close>

type_synonym 'a prog = "world \<Rightarrow> (error + 'a) \<times> world"

definition ok :: "'a \<Rightarrow> 'a prog" where
  "ok a = (\<lambda>s. (Inr a, s))"

definition raise :: "error \<Rightarrow> 'a prog" where
  "raise e = (\<lambda>s. (Inl e, s))"

definition lift :: "error + 'a \<Rightarrow> 'a prog" where
  "lift r = (\<lambda>s. (r, s))"

definition andThen :: "'a prog \<Rightarrow> ('a \<Rightarrow> 'b prog) \<Rightarrow> 'b prog" where
  "andThen m f = (\<lambda>s. case m s of (Inl e, s') \<Rightarrow> (Inl e, s') | (Inr a, s') \<Rightarrow> f a s')"

definition try_except :: "'a prog \<Rightarrow> (error \<Rightarrow> 'a prog) \<Rightarrow> 'a prog" where
  "try_except m handler = (\<lambda>s. case m s of (Inl e, s') \<Rightarrow> handler e s' | (Inr a, s') \<Rightarrow> (Inr a, s'))"

definition emit :: "event \<Rightarrow> world \<Rightarrow> world" where
  "emit ev s = s\<lparr>trace := trace s @ [ev]\<rparr>"

definition logging_error :: "event \<Rightarrow> unit prog" where
  "logging_error ev = (\<lambda>s. (Inr (), emit ev s))"

definition Path_touch :: "bool \<Rightarrow> path \<Rightarrow> unit prog" where
  "Path_touch exist_ok p =
     (\<lambda>s. case fs_touch exist_ok (fs s) p of
             Inl e \<Rightarrow> (Inl e, s)
           | Inr f \<Rightarrow> (Inr (), s\<lparr>fs := f\<rparr>))"

definition Path_mkdir :: "bool \<Rightarrow> path \<Rightarrow> unit prog" where
  "Path_mkdir exist_ok p =
     (\<lambda>s. case fs_mkdir exist_ok (fs s) p of
             Inl e \<Rightarrow> (Inl e, s)
           | Inr f \<Rightarrow> (Inr (), s\<lparr>fs := f\<rparr>))"

definition Path_unlink :: "path \<Rightarrow> unit prog" where
  "Path_unlink p =
     (\<lambda>s. case fs_unlink (fs s) p of
             Inl e \<Rightarrow> (Inl e, s)
           | Inr f \<Rightarrow> (Inr (), s\<lparr>fs := f\<rparr>))"

section \<open>Strings and dictionaries\<close>

definition lstrip :: "char \<Rightarrow> string \<Rightarrow> string" where
  "lstrip c s = dropWhile (\<lambda>x. x = c) s"

definition rstrip :: "char \<Rightarrow> string \<Rightarrow> string" where
  "rstrip c s = rev (dropWhile (\<lambda>x. x = c) (rev s))"

text \<open>\<^verbatim>\<open>str.lower\<close> on the ASCII letters.\<close>

definition char_lower :: "char \<Rightarrow> char" where
  "char_lower c =
     (if CHR ''A'' \<le> c \<and> c \<le> CHR ''Z'' then char_of (of_char c + (32::nat)) else c)"

definition str_lower :: "string \<Rightarrow> string" where
  "str_lower s = map char_lower s"

text \<open>A value formatted into an f-string: \<^verbatim>\<open>None\<close> prints as its name.\<close>

definition format_str :: "string option \<Rightarrow> string" where
  "format_str v = (case v of None \<Rightarrow> ''None'' | Some s \<Rightarrow> s)"

text \<open>
  \<^verbatim>\<open>{k.lower(): v for k, v in transaction.items()}\<close>: where two keys lower to the same
  string, the later item overwrites the earlier one.
\<close>

definition lowercased :: "transaction \<Rightarrow> (string \<rightharpoonup> string)" where
  "lowercased transaction = map_of (rev (map (\<lambda>(k, v). (str_lower k, v)) transaction))"

definition dict_getitem :: "(string \<rightharpoonup> string) \<Rightarrow> string \<Rightarrow> error + string" where
  "dict_getitem d k = (case d k of None \<Rightarrow> Inl (KeyError k) | Some v \<Rightarrow> Inr v)"

section \<open>Names the module binds\<close>

text \<open>
  The names bound at module level, by the imports and the class and variable definitions
  of \<^verbatim>\<open>handle_create_pdf.py\<close>, and the attributes an \<^verbatim>\<open>AeonClient\<close> instance has from
  its class body and its constructor. Reading any other global name raises \<^verbatim>\<open>NameError\<close>
  (the names read here are not builtins), any other attribute \<^verbatim>\<open>AttributeError\<close>.
\<close>

definition module_globals :: "string list" where
  "module_globals =
     [''logging'', ''getenv'', ''Path'', ''Session'', ''boto3'', ''Textractor'', ''logger'',
      ''AlreadyProcessingError'', ''AeonClient'', ''PdfCreator'']"

definition load_global :: "string \<Rightarrow> unit prog" where
  "load_global name = (if name \<in> set module_globals then ok () else raise (NameError name))"

definition AeonClient_attributes :: "string list" where
  "AeonClient_attributes = [''__init__'', ''get'', ''session'', ''baseurl'']"

definition AeonClient_getattr :: "string \<Rightarrow> unit prog" where
  "AeonClient_getattr name =
     (if name \<in> set AeonClient_attributes then ok () else raise (AttributeError name))"

section \<open>AeonClient\<close>

record AeonClient =
  baseurl :: string
  headers :: "(string \<times> string) list"

text \<open>The constructor takes exactly two arguments after \<^verbatim>\<open>self\<close>.\<close>

fun AeonClient_init :: "string list \<Rightarrow> error + AeonClient" where
  "AeonClient_init [baseurl', access_key] =
     Inr \<lparr>baseurl = baseurl',
          headers = [(''Accept'', ''application/json''),
                     (''User-Agent'', ''AeonClient/0.1''),
                     (''X-AEON-API-KEY'', access_key)]\<rparr>"
| "AeonClient_init args = Inl TypeError"

definition AeonClient_get :: "services \<Rightarrow> AeonClient \<Rightarrow> string \<Rightarrow> response prog" where
  "AeonClient_get sv self url =
     (let full_url = rstrip (CHR ''/'') (baseurl self) @ ''/'' @ lstrip (CHR ''/'') url
      in (\<lambda>s. (session_get sv (trace s) full_url, emit (HttpGet full_url) s)))"

text \<open>
  Modelled from the spec: \<^verbatim>\<open>AeonClient.post\<close>, which the class does not define.
  The spec's words: an HTTP POST against a per-record route endpoint with a body
  specifying the new status code.
\<close>

definition AeonClient_post :: "services \<Rightarrow> AeonClient \<Rightarrow> string \<Rightarrow> string option \<Rightarrow> response prog" where
  "AeonClient_post sv self url new_status =
     (let full_url = rstrip (CHR ''/'') (baseurl self) @ ''/'' @ lstrip (CHR ''/'') url
      in (\<lambda>s. (session_post sv (trace s) full_url new_status, emit (HttpPost full_url new_status) s)))"

section \<open>The document writer\<close>

text \<open>
  Modelled from the spec: the class \<^verbatim>\<open>PDFWriter\<close>, which the repository neither defines nor
  imports. The spec's words: \<^verbatim>\<open>append(page, text)\<close> is repeatable and preserves call order;
  \<^verbatim>\<open>finalize\<close> produces exactly one document containing all appended pages in the order
  appended, each page's image paired with its recognized text. Instantiating the class
  reads the global name first.
\<close>

record PDFWriter =
  output_path :: path
  appended :: "(path \<times> string) list"

definition PDFWriter_init :: "path \<Rightarrow> PDFWriter prog" where
  "PDFWriter_init pdf_path =
     andThen (load_global ''PDFWriter'') (\<lambda>_. ok \<lparr>output_path = pdf_path, appended = []\<rparr>)"

definition PDFWriter_append :: "PDFWriter \<Rightarrow> path \<Rightarrow> string \<Rightarrow> PDFWriter" where
  "PDFWriter_append writer page_path page_text =
     writer\<lparr>appended := appended writer @ [(page_path, page_text)]\<rparr>"

definition PDFWriter_write :: "PDFWriter \<Rightarrow> unit prog" where
  "PDFWriter_write writer =
     (\<lambda>s. (Inr (),
           s\<lparr>fs := (if Path_exists (fs s) (output_path writer) then fs s
                    else fs s @ [(output_path writer, File)]),
             documents := documents s @ [(output_path writer, appended writer)]\<rparr>))"

section \<open>PdfCreator\<close>

record PdfCreator =
  aeon_client :: AeonClient

text \<open>
  \<^verbatim>\<open>PdfCreator.__init__\<close> calls \<^verbatim>\<open>AeonClient()\<close> with no argument, then builds the S3
  client and the Textract client.
\<close>

definition PdfCreator_init :: "services \<Rightarrow> PdfCreator prog" where
  "PdfCreator_init sv =
     andThen (lift (AeonClient_init [])) (\<lambda>client.
     andThen (lift (boto3_client sv)) (\<lambda>_.
     andThen (lift (Textractor sv)) (\<lambda>_.
     ok \<lparr>aeon_client = client\<rparr>)))"

definition set_transaction_processing :: "env \<Rightarrow> string \<Rightarrow> unit prog" where
  "set_transaction_processing env transaction_number =
     try_except
       (andThen (lift (Path [env ''IN_PROCESSING_FILE_DIR'', Some transaction_number]))
          (\<lambda>marker. Path_touch True marker))
       (\<lambda>e. if e = FileExistsError then raise AlreadyProcessingError else raise e)"

definition set_transaction_finished :: "env \<Rightarrow> string \<Rightarrow> unit prog" where
  "set_transaction_finished env transaction_number =
     andThen (lift (Path [env ''IN_PROCESSING_FILE_DIR'', Some transaction_number]))
       (\<lambda>marker. Path_unlink marker)"

definition extract_text :: "services \<Rightarrow> path \<Rightarrow> string prog" where
  "extract_text sv page_path =
     (\<lambda>s. (detect_document_text sv (trace s) page_path, emit (DetectDocumentText page_path) s))"

definition upload_page_text :: "services \<Rightarrow> env \<Rightarrow> string \<Rightarrow> string \<Rightarrow> unit prog" where
  "upload_page_text sv env page_text object_key =
     (\<lambda>s. (upload_file sv (trace s) page_text (env ''OCR_BUCKET'') object_key,
           emit (UploadFile page_text (env ''OCR_BUCKET'') object_key) s))"

fun create_pdf_pages :: "services \<Rightarrow> env \<Rightarrow> path list \<Rightarrow> PDFWriter \<Rightarrow> PDFWriter prog" where
  "create_pdf_pages sv env [] writer = ok writer"
| "create_pdf_pages sv env (page_path # source_files) writer =
     andThen (extract_text sv page_path) (\<lambda>page_text.
     andThen (upload_page_text sv env page_text (Path_name page_path)) (\<lambda>_.
     create_pdf_pages sv env source_files (PDFWriter_append writer page_path page_text)))"

definition create_pdf :: "services \<Rightarrow> env \<Rightarrow> string \<Rightarrow> path prog" where
  "create_pdf sv env transaction_number =
     andThen (lift (Path [env ''ROOT_DIR'', Some transaction_number])) (\<lambda>root_dir.
     let pdf_path = Path_div (Path_div root_dir ''service_edited'') (transaction_number @ ''.pdf'')
     in andThen (Path_mkdir True (Path_parent pdf_path)) (\<lambda>_.
        andThen (PDFWriter_init pdf_path) (\<lambda>writer.
        andThen (\<lambda>s. (Inr (collect_tiff_filepaths (fs s) root_dir), s)) (\<lambda>source_files.
        andThen (create_pdf_pages sv env source_files writer) (\<lambda>writer'.
        andThen (PDFWriter_write writer') (\<lambda>_.
        ok pdf_path))))))"

definition optimize_pdf :: "path \<Rightarrow> unit prog" where
  "optimize_pdf pdf_path = ok ()"

definition get_transactions_in_status ::
    "services \<Rightarrow> PdfCreator \<Rightarrow> string option \<Rightarrow> transaction list prog" where
  "get_transactions_in_status sv self status_code =
     (let transaction_url =
            ''/odata/Requests?$filter=photoduplicationstatus eq '' @ format_str status_code
      in andThen (AeonClient_get sv (aeon_client self) transaction_url)
           (\<lambda>r. case r of Response body \<Rightarrow> lift body))"

definition update_transaction_status ::
    "services \<Rightarrow> env \<Rightarrow> PdfCreator \<Rightarrow> string \<Rightarrow> unit prog" where
  "update_transaction_status sv env self transaction_number =
     (let transaction_url = ''/Requests/'' @ transaction_number @ ''/route''
      in andThen (AeonClient_getattr ''post'') (\<lambda>_.
         andThen (AeonClient_post sv (aeon_client self) transaction_url
                    (env ''DESTINATION_TRANSACTION_STATUS'')) (\<lambda>_.
         ok ())))"

text \<open>
  The body of the \<^verbatim>\<open>try\<close> in \<^verbatim>\<open>handle_new_transactions\<close>, and the whole statement
  with its two handlers. In the first handler \<^verbatim>\<open>transaction_number\<close> is the value the
  body bound before \<^verbatim>\<open>set_transaction_processing\<close> raised.
\<close>

definition transaction_body ::
    "services \<Rightarrow> env \<Rightarrow> PdfCreator \<Rightarrow> transaction \<Rightarrow> unit prog" where
  "transaction_body sv env self transaction =
     andThen (lift (dict_getitem (lowercased transaction) ''transactionnumber''))
       (\<lambda>transaction_number.
     andThen (set_transaction_processing env transaction_number) (\<lambda>_.
     andThen (create_pdf sv env transaction_number) (\<lambda>pdf_path.
     andThen (optimize_pdf pdf_path) (\<lambda>_.
     andThen (update_transaction_status sv env self transaction_number) (\<lambda>_.
     set_transaction_finished env transaction_number)))))"

definition process_transaction ::
    "services \<Rightarrow> env \<Rightarrow> PdfCreator \<Rightarrow> transaction \<Rightarrow> unit prog" where
  "process_transaction sv env self transaction =
     try_except (transaction_body sv env self transaction)
       (\<lambda>e. if e = AlreadyProcessingError
            then logging_error (LogAlreadyProcessing (lowercased transaction ''transactionnumber''))
            else logging_error (LogError e))"

fun for_transactions ::
    "services \<Rightarrow> env \<Rightarrow> PdfCreator \<Rightarrow> transaction list \<Rightarrow> unit prog" where
  "for_transactions sv env self [] = ok ()"
| "for_transactions sv env self (transaction # rest) =
     andThen (process_transaction sv env self transaction) (\<lambda>_.
     for_transactions sv env self rest)"

definition handle_new_transactions :: "services \<Rightarrow> env \<Rightarrow> PdfCreator \<Rightarrow> unit prog" where
  "handle_new_transactions sv env self =
     andThen (get_transactions_in_status sv self (env ''SOURCE_TRANSACTION_STATUS''))
       (\<lambda>transactions_to_process. for_transactions sv env self transactions_to_process)"

text \<open>The entry point: \<^verbatim>\<open>PdfCreator().handle_new_transactions()\<close>.\<close>

definition main :: "services \<Rightarrow> env \<Rightarrow> unit prog" where
  "main sv env = andThen (PdfCreator_init sv) (\<lambda>self. handle_new_transactions sv env self)"

section \<open>The directory a transaction's pages are taken from\<close>

text \<open>
  The policy in the spec's words: prefer the edited subdirectory if present, else fall
  back to the master subdirectory.
\<close>

definition chosen_dir :: "filesystem \<Rightarrow> path \<Rightarrow> path" where
  "chosen_dir fsys root_dir =
     (if Path_is_dir fsys (Path_div root_dir ''master_edited'')
      then Path_div root_dir ''master_edited'' else Path_div root_dir ''master'')"

section \<open>The output path\<close>

text \<open>The \<^verbatim>\<open>pdf_path\<close> that \<^verbatim>\<open>create_pdf\<close> computes from the root directory.\<close>

definition pdf_path_of :: "path \<Rightarrow> string \<Rightarrow> path" where
  "pdf_path_of root_dir transaction_number =
     Path_div (Path_div root_dir ''service_edited'') (transaction_number @ ''.pdf'')"

section \<open>A sample installation\<close>

text \<open>
  An environment and a file system on which the theorems below are instantiated:
  transaction \<open>T100\<close> has only a master directory, \<open>T200\<close> has both directories with
  pages in each, \<open>T300\<close> has an edited directory with no page in it and a master directory
  with one, \<open>T400\<close> has neither directory.
\<close>

definition example_env :: env where
  "example_env name =
     (if name = ''ROOT_DIR'' then Some ''/data''
      else if name = ''IN_PROCESSING_FILE_DIR'' then Some ''/locks''
      else if name = ''OCR_BUCKET'' then Some ''ocr-text''
      else if name = ''SOURCE_TRANSACTION_STATUS'' then Some ''22''
      else if name = ''DESTINATION_TRANSACTION_STATUS'' then Some ''23''
      else None)"

definition example_fs :: filesystem where
  "example_fs =
     [([''/''], Dir), ([''/'', ''data''], Dir), ([''/'', ''locks''], Dir),
      ([''/'', ''data'', ''T100''], Dir),
      ([''/'', ''data'', ''T100'', ''master''], Dir),
      ([''/'', ''data'', ''T100'', ''master'', ''p2.tiff''], File),
      ([''/'', ''data'', ''T100'', ''master'', ''p1.tiff''], File),
      ([''/'', ''data'', ''T200''], Dir),
      ([''/'', ''data'', ''T200'', ''master''], Dir),
      ([''/'', ''data'', ''T200'', ''master'', ''m1.tiff''], File),
      ([''/'', ''data'', ''T200'', ''master_edited''], Dir),
      ([''/'', ''data'', ''T200'', ''master_edited'', ''e2.tiff''], File),
      ([''/'', ''data'', ''T200'', ''master_edited'', ''notes.txt''], File),
      ([''/'', ''data'', ''T200'', ''master_edited'', ''e1.tiff''], File),
      ([''/'', ''data'', ''T300''], Dir),
      ([''/'', ''data'', ''T300'', ''master''], Dir),
      ([''/'', ''data'', ''T300'', ''master'', ''m1.tiff''], File),
      ([''/'', ''data'', ''T300'', ''master_edited''], Dir),
      ([''/'', ''data'', ''T400''], Dir)]"

text \<open>
  Services that always answer, a creator as the constructor would build it if it were
  given a base URL, and three records of a batch: one for \<open>T100\<close>, one for \<open>T400\<close> and
  one with no transaction number.
\<close>

definition example_services :: services where
  "example_services =
     \<lparr>session_get = (\<lambda>_ _. Inr (Response (Inr [[(''transactionNumber'', ''T400'')],
                                                  [(''username'', ''reader'')],
                                                  [(''TransactionNumber'', ''T100''), (''username'', ''reader'')]]))),
      session_post = (\<lambda>_ _ _. Inr (Response (Inr []))),
      boto3_client = Inr (),
      Textractor = Inr (),
      detect_document_text = (\<lambda>_ page_path. Inr (''text of '' @ Path_name page_path)),
      upload_file = (\<lambda>_ _ _ _. Inr ())\<rparr>"

definition example_world :: world where
  "example_world = \<lparr>fs = example_fs, trace = [], documents = []\<rparr>"

definition example_creator :: PdfCreator where
  "example_creator =
     \<lparr>aeon_client = \<lparr>baseurl = ''https://aeon.example.org/api/'', headers = []\<rparr>\<rparr>"

definition example_transaction :: transaction where
  "example_transaction = [(''TransactionNumber'', ''T100''), (''username'', ''reader'')]"

definition empty_transaction :: transaction where
  "empty_transaction = [(''transactionNumber'', ''T400'')]"

definition unnumbered_transaction :: transaction where
  "unnumbered_transaction = [(''username'', ''reader'')]"



section \<open>Page collection: which files, in which order\<close>

lemma fnmatch_star: "fnmatch (CHR ''*'' # ps) cs \<longleftrightarrow> (\<exists>ws. suffix ws cs \<and> fnmatch ps ws)"
proof (induction cs)
  case Nil
  show ?case by simp
next
  case (Cons c cs)
  have "fnmatch (CHR ''*'' # ps) (c # cs) \<longleftrightarrow> fnmatch ps (c # cs) \<or> fnmatch (CHR ''*'' # ps) cs"
    by simp
  also have "\<dots> \<longleftrightarrow> fnmatch ps (c # cs) \<or> (\<exists>ws. suffix ws cs \<and> fnmatch ps ws)"
    using Cons.IH by simp
  also have "\<dots> \<longleftrightarrow> (\<exists>ws. suffix ws (c # cs) \<and> fnmatch ps ws)"
    by (auto simp: suffix_Cons)
  finally show ?case .
qed

lemma fnmatch_literal:
  "CHR ''*'' \<notin> set ps \<Longrightarrow> CHR ''?'' \<notin> set ps \<Longrightarrow> fnmatch ps cs \<longleftrightarrow> cs = ps"
proof (induction ps arbitrary: cs)
  case Nil
  show ?case by (cases cs) simp_all
next
  case (Cons p ps)
  then show ?case by (cases cs) auto
qed

lemma fnmatch_tiff: "fnmatch ''*.tiff'' n \<longleftrightarrow> suffix ''.tiff'' n"
proof -
  have "fnmatch ''.tiff'' ws \<longleftrightarrow> ws = ''.tiff''" for ws
    by (rule fnmatch_literal) simp_all
  then show ?thesis
    by (simp add: fnmatch_star)
qed

lemma Path_div_literal:
  "Path_div p ''master_edited'' = p @ [''master_edited'']"
  "Path_div p ''master'' = p @ [''master'']"
  "Path_div p ''service_edited'' = p @ [''service_edited'']"
  by (simp_all add: Path_div_def parse_parts_def root_of_def)

lemma append_le_append: "(d @ x \<le> d @ y) \<longleftrightarrow> (x \<le> (y :: 'a :: linorder list))"
  by (induction d) simp_all

lemma scandir_member:
  "q \<in> set (scandir fsys d) \<longleftrightarrow> q \<in> fst ` set fsys \<and> q \<noteq> [] \<and> butlast q = d"
  by (auto simp: scandir_def)

lemma scandir_decompose: "q \<in> set (scandir fsys d) \<Longrightarrow> q = d @ [last q]"
  by (auto simp: scandir_member)

lemma child_name: "d \<noteq> [] \<Longrightarrow> Path_name (d @ [n]) = n"
  by (cases d) (simp_all add: Path_name_def is_anchor_def)

lemma child_parent: "d \<noteq> [] \<Longrightarrow> Path_parent (d @ [n]) = d"
  by (cases d) (simp_all add: Path_parent_def is_anchor_def)

lemma sorted_children_names:
  assumes "sorted qs" and "\<forall>q \<in> set qs. q = d @ [last q]"
  shows "sorted (map last qs)"
  using assms
proof (induction qs)
  case Nil
  show ?case by simp
next
  case (Cons q qs)
  have "last q \<le> last r" if r: "r \<in> set qs" for r
  proof -
    have "q \<le> r" using Cons.prems(1) r by simp
    moreover have "q = d @ [last q]" "r = d @ [last r]" using Cons.prems(2) r by simp_all
    ultimately have "d @ [last q] \<le> d @ [last r]" by simp
    then show ?thesis unfolding append_le_append by (simp add: order.order_iff_strict)
  qed
  with Cons show ?case by simp
qed

lemma collect_tiff_filepaths_eq:
  "collect_tiff_filepaths fsys root_dir =
     sort (if Path_is_dir fsys (chosen_dir fsys root_dir)
           then [q \<leftarrow> scandir fsys (chosen_dir fsys root_dir). suffix ''.tiff'' (last q)] else [])"
  by (simp add: collect_tiff_filepaths_def Path_div_literal Path_glob_def fnmatch_tiff chosen_dir_def)

lemma chosen_dir_nonempty: "chosen_dir fsys root_dir \<noteq> []"
  by (simp add: chosen_dir_def Path_div_literal)

lemma collected_in_chosen_dir:
  assumes "q \<in> set (collect_tiff_filepaths fsys root_dir)"
  shows "q = chosen_dir fsys root_dir @ [last q]"
  using assms by (auto simp: collect_tiff_filepaths_eq split: if_splits dest: scandir_decompose)

lemma collected_names_sorted: "sorted (map Path_name (collect_tiff_filepaths fsys root_dir))"
proof -
  let ?r = "collect_tiff_filepaths fsys root_dir"
  have dec: "\<forall>q \<in> set ?r. q = chosen_dir fsys root_dir @ [last q]"
    using collected_in_chosen_dir by blast
  have "sorted ?r" by (simp add: collect_tiff_filepaths_eq)
  then have srt: "sorted (map last ?r)" using dec by (rule sorted_children_names)
  have "map Path_name ?r = map last ?r"
  proof (rule map_cong[OF refl])
    fix q assume "q \<in> set ?r"
    then have "q = chosen_dir fsys root_dir @ [last q]" using dec by blast
    then show "Path_name q = last q"
      using child_name[OF chosen_dir_nonempty, of fsys root_dir "last q"] by simp
  qed
  with srt show ?thesis by (simp only:)
qed

text \<open>
  C3. For every transaction root directory, \<open>collect_tiff_filepaths\<close> returns the
  entries whose name ends in \<open>.tiff\<close> of the \<open>master_edited\<close> subdirectory if that is a
  directory, otherwise of the \<open>master\<close> subdirectory, sorted by file name ascending. When
  \<open>master_edited\<close> is a directory every path returned lies in it, whatever \<open>master\<close>
  holds; when neither is a directory, or the chosen one has no matching entry, the result
  is the empty list.
\<close>

theorem collect_tiff_filepaths_policy:
  "collect_tiff_filepaths fsys root_dir =
     sort (if Path_is_dir fsys (chosen_dir fsys root_dir)
           then [q \<leftarrow> scandir fsys (chosen_dir fsys root_dir). suffix ''.tiff'' (Path_name q)]
           else [])
   \<and> sorted (map Path_name (collect_tiff_filepaths fsys root_dir))
   \<and> (Path_is_dir fsys (Path_div root_dir ''master_edited'') \<longrightarrow>
        (\<forall>q \<in> set (collect_tiff_filepaths fsys root_dir).
           Path_parent q = Path_div root_dir ''master_edited''))
   \<and> (\<not> Path_is_dir fsys (Path_div root_dir ''master_edited'') \<and>
       \<not> Path_is_dir fsys (Path_div root_dir ''master'')
        \<longrightarrow> collect_tiff_filepaths fsys root_dir = [])
   \<and> ((\<forall>q \<in> set (scandir fsys (chosen_dir fsys root_dir)). \<not> suffix ''.tiff'' (Path_name q))
        \<longrightarrow> collect_tiff_filepaths fsys root_dir = [])"
proof -
  let ?d = "chosen_dir fsys root_dir"
  let ?r = "collect_tiff_filepaths fsys root_dir"
  have name: "Path_name q = last q" if "q \<in> set (scandir fsys ?d)" for q
  proof -
    have "q = ?d @ [last q]" using that by (rule scandir_decompose)
    then show ?thesis using child_name[OF chosen_dir_nonempty, of fsys root_dir "last q"] by simp
  qed
  have filt: "[q \<leftarrow> scandir fsys ?d. suffix ''.tiff'' (Path_name q)]
                = [q \<leftarrow> scandir fsys ?d. suffix ''.tiff'' (last q)]"
    by (rule filter_cong[OF refl]) (simp add: name)
  have c1: "?r = sort (if Path_is_dir fsys ?d
                       then [q \<leftarrow> scandir fsys ?d. suffix ''.tiff'' (Path_name q)] else [])"
    unfolding filt by (rule collect_tiff_filepaths_eq)
  have c2: "sorted (map Path_name ?r)" by (rule collected_names_sorted)
  have c3: "Path_is_dir fsys (Path_div root_dir ''master_edited'') \<longrightarrow>
        (\<forall>q \<in> set ?r. Path_parent q = Path_div root_dir ''master_edited'')"
  proof (intro impI ballI)
    fix q assume e: "Path_is_dir fsys (Path_div root_dir ''master_edited'')" and q: "q \<in> set ?r"
    have "q = ?d @ [last q]" using q by (rule collected_in_chosen_dir)
    then have "Path_parent q = ?d"
      using child_parent[OF chosen_dir_nonempty, of fsys root_dir "last q"] by simp
    then show "Path_parent q = Path_div root_dir ''master_edited''" using e by (simp add: chosen_dir_def)
  qed
  have c4: "\<not> Path_is_dir fsys (Path_div root_dir ''master_edited'') \<and>
            \<not> Path_is_dir fsys (Path_div root_dir ''master'') \<longrightarrow> ?r = []"
    by (simp add: collect_tiff_filepaths_eq chosen_dir_def)
  have c5: "(\<forall>q \<in> set (scandir fsys ?d). \<not> suffix ''.tiff'' (Path_name q)) \<longrightarrow> ?r = []"
  proof
    assume "\<forall>q \<in> set (scandir fsys ?d). \<not> suffix ''.tiff'' (Path_name q)"
    then have "[q \<leftarrow> scandir fsys ?d. suffix ''.tiff'' (Path_name q)] = []"
      by (simp add: filter_empty_conv)
    then show "?r = []" using c1 by simp
  qed
  from c1 c2 c3 c4 c5 show ?thesis by blast
qed

theorem collect_tiff_filepaths_policy_witness:
  "Path_is_dir example_fs (Path_div [''/'', ''data'', ''T200''] ''master_edited'')
   \<and> Path_glob example_fs (Path_div [''/'', ''data'', ''T200''] ''master'') ''*.tiff'' \<noteq> []
   \<and> collect_tiff_filepaths example_fs [''/'', ''data'', ''T200'']
       = [[''/'', ''data'', ''T200'', ''master_edited'', ''e1.tiff''],
          [''/'', ''data'', ''T200'', ''master_edited'', ''e2.tiff'']]
   \<and> list_all (\<lambda>q. Path_parent q = Path_div [''/'', ''data'', ''T200''] ''master_edited'')
         (collect_tiff_filepaths example_fs [''/'', ''data'', ''T200''])
   \<and> sorted (map Path_name (collect_tiff_filepaths example_fs [''/'', ''data'', ''T200'']))
   \<and> \<not> Path_is_dir example_fs (Path_div [''/'', ''data'', ''T400''] ''master_edited'')
   \<and> \<not> Path_is_dir example_fs (Path_div [''/'', ''data'', ''T400''] ''master'')
   \<and> collect_tiff_filepaths example_fs [''/'', ''data'', ''T400''] = []
   \<and> [q \<leftarrow> scandir example_fs (chosen_dir example_fs [''/'', ''data'', ''T300'']).
         suffix ''.tiff'' (Path_name q)] = []
   \<and> collect_tiff_filepaths example_fs [''/'', ''data'', ''T300''] = []"
proof -
  have h1: "Path_is_dir example_fs (Path_div [''/'', ''data'', ''T200''] ''master_edited'')"
    by code_simp
  have h2: "Path_glob example_fs (Path_div [''/'', ''data'', ''T200''] ''master'') ''*.tiff'' \<noteq> []"
    by code_simp
  have h3: "collect_tiff_filepaths example_fs [''/'', ''data'', ''T200'']
       = [[''/'', ''data'', ''T200'', ''master_edited'', ''e1.tiff''],
          [''/'', ''data'', ''T200'', ''master_edited'', ''e2.tiff'']]"
    by code_simp
  have h4: "\<not> Path_is_dir example_fs (Path_div [''/'', ''data'', ''T400''] ''master_edited'')"
    by code_simp
  have h5: "\<not> Path_is_dir example_fs (Path_div [''/'', ''data'', ''T400''] ''master'')"
    by code_simp
  have h6: "[q \<leftarrow> scandir example_fs (chosen_dir example_fs [''/'', ''data'', ''T300'']).
         suffix ''.tiff'' (Path_name q)] = []"
    by code_simp
  then have h6': "\<forall>q \<in> set (scandir example_fs (chosen_dir example_fs [''/'', ''data'', ''T300''])).
         \<not> suffix ''.tiff'' (Path_name q)"
    by (simp add: filter_empty_conv)
  note a = collect_tiff_filepaths_policy[of example_fs "[''/'', ''data'', ''T200'']"]
  note b = collect_tiff_filepaths_policy[of example_fs "[''/'', ''data'', ''T400'']"]
  note c = collect_tiff_filepaths_policy[of example_fs "[''/'', ''data'', ''T300'']"]
  from a h1 have "\<forall>q \<in> set (collect_tiff_filepaths example_fs [''/'', ''data'', ''T200'']).
         Path_parent q = Path_div [''/'', ''data'', ''T200''] ''master_edited''" by blast
  then have a3: "list_all (\<lambda>q. Path_parent q = Path_div [''/'', ''data'', ''T200''] ''master_edited'')
         (collect_tiff_filepaths example_fs [''/'', ''data'', ''T200''])"
    by (simp add: list_all_iff)
  from a have a2: "sorted (map Path_name (collect_tiff_filepaths example_fs [''/'', ''data'', ''T200'']))"
    by blast
  from b h4 h5 have b4: "collect_tiff_filepaths example_fs [''/'', ''data'', ''T400''] = []" by blast
  from c h6' have c5: "collect_tiff_filepaths example_fs [''/'', ''data'', ''T300''] = []" by blast
  from h1 h2 h3 a3 a2 h4 h5 b4 h6 c5 show ?thesis by blast
qed

text \<open>
  C10. Whether \<open>master\<close> is consulted is decided by \<open>master_edited\<close> being a directory,
  not by its having pages: if it is a directory and holds no matching file the result is
  empty, whatever \<open>master\<close> holds.
\<close>

theorem master_edited_presence_decides:
  "(Path_is_dir fsys (Path_div root_dir ''master_edited'') \<longrightarrow>
      collect_tiff_filepaths fsys root_dir
        = sort (Path_glob fsys (Path_div root_dir ''master_edited'') ''*.tiff''))
   \<and> (Path_is_dir fsys (Path_div root_dir ''master_edited'') \<and>
      Path_glob fsys (Path_div root_dir ''master_edited'') ''*.tiff'' = [] \<longrightarrow>
      collect_tiff_filepaths fsys root_dir = [])
   \<and> (\<not> Path_is_dir fsys (Path_div root_dir ''master_edited'') \<longrightarrow>
      collect_tiff_filepaths fsys root_dir
        = sort (Path_glob fsys (Path_div root_dir ''master'') ''*.tiff''))"
  by (simp add: collect_tiff_filepaths_def)

theorem master_edited_presence_decides_witness:
  "Path_is_dir example_fs (Path_div [''/'', ''data'', ''T300''] ''master_edited'')
   \<and> Path_glob example_fs (Path_div [''/'', ''data'', ''T300''] ''master_edited'') ''*.tiff'' = []
   \<and> Path_glob example_fs (Path_div [''/'', ''data'', ''T300''] ''master'') ''*.tiff''
        = [[''/'', ''data'', ''T300'', ''master'', ''m1.tiff'']]
   \<and> collect_tiff_filepaths example_fs [''/'', ''data'', ''T300''] = []
   \<and> \<not> Path_is_dir example_fs (Path_div [''/'', ''data'', ''T100''] ''master_edited'')
   \<and> collect_tiff_filepaths example_fs [''/'', ''data'', ''T100'']
        = sort (Path_glob example_fs (Path_div [''/'', ''data'', ''T100''] ''master'') ''*.tiff'')"
proof -
  have h1: "Path_is_dir example_fs (Path_div [''/'', ''data'', ''T300''] ''master_edited'')"
    by code_simp
  have h2: "Path_glob example_fs (Path_div [''/'', ''data'', ''T300''] ''master_edited'') ''*.tiff'' = []"
    by code_simp
  have h3: "Path_glob example_fs (Path_div [''/'', ''data'', ''T300''] ''master'') ''*.tiff''
        = [[''/'', ''data'', ''T300'', ''master'', ''m1.tiff'']]"
    by code_simp
  have h4: "\<not> Path_is_dir example_fs (Path_div [''/'', ''data'', ''T100''] ''master_edited'')"
    by code_simp
  from master_edited_presence_decides[of example_fs "[''/'', ''data'', ''T300'']"] h1 h2
  have a: "collect_tiff_filepaths example_fs [''/'', ''data'', ''T300''] = []" by blast
  from master_edited_presence_decides[of example_fs "[''/'', ''data'', ''T100'']"] h4
  have b: "collect_tiff_filepaths example_fs [''/'', ''data'', ''T100'']
        = sort (Path_glob example_fs (Path_div [''/'', ''data'', ''T100''] ''master'') ''*.tiff'')"
    by blast
  from h1 h2 h3 a h4 b show ?thesis by blast
qed

section \<open>The guard marker\<close>

lemma create_node_errors:
  "create_node fsys p n = Inl e \<Longrightarrow> e = FileNotFoundError \<or> e = NotADirectoryError"
  by (auto simp: create_node_def split: option.splits node.splits)

lemma fs_touch_exist_ok: "fs_touch True fsys p \<noteq> Inl FileExistsError"
  by (auto simp: fs_touch_def split: option.splits dest: create_node_errors)

lemma fs_touch_existing: "Path_exists fsys p \<Longrightarrow> fs_touch True fsys p = Inr fsys"
  by (auto simp: fs_touch_def Path_exists_def)

lemma create_node_keeps: "create_node fsys p n = Inr f \<Longrightarrow> map_of fsys q = Some k \<Longrightarrow> map_of f q = Some k"
  by (auto simp: create_node_def split: option.splits node.splits)

lemma create_node_creates: "create_node fsys p n = Inr f \<Longrightarrow> map_of fsys p = None \<Longrightarrow> map_of f p = Some n"
  by (auto simp: create_node_def map_add_def split: option.splits node.splits)

lemma fs_touch_exists_after: "fs_touch ok' fsys p = Inr f \<Longrightarrow> Path_exists f p"
  by (auto simp: fs_touch_def Path_exists_def split: option.splits if_splits dest: create_node_creates)

lemma fs_mkdir_keeps: "fs_mkdir ok' fsys p = Inr f \<Longrightarrow> map_of fsys q = Some k \<Longrightarrow> map_of f q = Some k"
  by (auto simp: fs_mkdir_def split: option.splits if_splits dest: create_node_keeps)

lemma set_transaction_processing_eq:
  "set_transaction_processing env tn s =
     (case Path [env ''IN_PROCESSING_FILE_DIR'', Some tn] of
        Inl e \<Rightarrow> (Inl e, s)
      | Inr marker \<Rightarrow>
          (case fs_touch True (fs s) marker of
             Inl e \<Rightarrow> (Inl e, s)
           | Inr f \<Rightarrow> (Inr (), s\<lparr>fs := f\<rparr>)))"
proof (cases "Path [env ''IN_PROCESSING_FILE_DIR'', Some tn]")
  case (Inl e)
  then have "e = TypeError" by (auto simp: Path_def split: option.splits)
  with Inl show ?thesis
    by (simp add: set_transaction_processing_def try_except_def andThen_def lift_def raise_def)
next
  case (Inr marker)
  show ?thesis
  proof (cases "fs_touch True (fs s) marker")
    case (Inl e)
    then have "e \<noteq> FileExistsError" using fs_touch_exist_ok[of "fs s" marker] by auto
    with Inl Inr show ?thesis
      by (simp add: set_transaction_processing_def try_except_def andThen_def lift_def raise_def Path_touch_def)
  next
    case (Inr f)
    with \<open>Path _ = Inr marker\<close> show ?thesis
      by (simp add: set_transaction_processing_def try_except_def andThen_def lift_def raise_def Path_touch_def)
  qed
qed

lemma set_transaction_processing_never_already:
  "fst (set_transaction_processing env tn s) \<noteq> Inl AlreadyProcessingError"
proof -
  have "Path args \<noteq> Inl AlreadyProcessingError" for args
    by (auto simp: Path_def split: option.splits)
  moreover have "fs_touch True fsys p \<noteq> Inl AlreadyProcessingError" for fsys p
    by (auto simp: fs_touch_def split: option.splits dest: create_node_errors)
  ultimately show ?thesis
    by (auto simp: set_transaction_processing_eq split: sum.splits)
qed

lemma set_transaction_processing_trace:
  "trace (snd (set_transaction_processing env tn s)) = trace s"
  by (simp add: set_transaction_processing_eq split: sum.splits)

lemma set_transaction_processing_documents:
  "documents (snd (set_transaction_processing env tn s)) = documents s"
  by (simp add: set_transaction_processing_eq split: sum.splits)

lemma guard_held_after_acquire:
  assumes "Path [env ''IN_PROCESSING_FILE_DIR'', Some tn] = Inr marker"
      and "fst (set_transaction_processing env tn s) = Inr ()"
  shows "Path_exists (fs (snd (set_transaction_processing env tn s))) marker"
  using assms
  by (auto simp: set_transaction_processing_eq split: sum.splits dest: fs_touch_exists_after)


text \<open>
  C1. The claim: acquiring the guard for a transaction number whose marker already exists
  fails with \<open>AlreadyProcessingError\<close> and leaves exactly one marker. The code calls
  \<^verbatim>\<open>touch()\<close> with its default \<^verbatim>\<open>exist_ok=True\<close>, which succeeds on an existing file, so
  the handler for \<^verbatim>\<open>FileExistsError\<close> never runs
  (\<open>set_transaction_processing_never_already\<close>). Here the guard for \<open>T100\<close> is acquired
  twice in a row: the second call returns normally and leaves the world as it was, with
  the one marker.
\<close>

theorem second_acquire_succeeds:
  "fst (set_transaction_processing example_env ''T100'' example_world) = Inr ()
   \<and> Path_exists (fs (snd (set_transaction_processing example_env ''T100'' example_world)))
        [''/'', ''locks'', ''T100'']
   \<and> set_transaction_processing example_env ''T100''
        (snd (set_transaction_processing example_env ''T100'' example_world))
       = (Inr (), snd (set_transaction_processing example_env ''T100'' example_world))
   \<and> [e \<leftarrow> fs (snd (set_transaction_processing example_env ''T100'' example_world)).
         fst e = [''/'', ''locks'', ''T100'']] = [([''/'', ''locks'', ''T100''], File)]"
  by code_simp

section \<open>Document assembly\<close>

lemma PDFWriter_init_raises: "PDFWriter_init pdf_path s = (Inl (NameError ''PDFWriter''), s)"
  by (simp add: PDFWriter_init_def load_global_def module_globals_def andThen_def raise_def)

lemma create_pdf_eq:
  "create_pdf sv env tn s =
     (case Path [env ''ROOT_DIR'', Some tn] of
        Inl e \<Rightarrow> (Inl e, s)
      | Inr root_dir \<Rightarrow>
          (case fs_mkdir True (fs s) (Path_parent (pdf_path_of root_dir tn)) of
             Inl e \<Rightarrow> (Inl e, s)
           | Inr f \<Rightarrow> (Inl (NameError ''PDFWriter''), s\<lparr>fs := f\<rparr>)))"
  by (simp add: create_pdf_def pdf_path_of_def andThen_def lift_def Path_mkdir_def Let_def
        PDFWriter_init_raises split: sum.splits)

lemma create_pdf_raises: "\<exists>e. fst (create_pdf sv env tn s) = Inl e"
  by (simp add: create_pdf_eq split: sum.splits)

lemma create_pdf_trace: "trace (snd (create_pdf sv env tn s)) = trace s"
  by (simp add: create_pdf_eq split: sum.splits)

lemma create_pdf_documents: "documents (snd (create_pdf sv env tn s)) = documents s"
  by (simp add: create_pdf_eq split: sum.splits)

lemma create_pdf_keeps:
  "map_of (fs s) q = Some k \<Longrightarrow> map_of (fs (snd (create_pdf sv env tn s))) q = Some k"
  by (auto simp: create_pdf_eq split: sum.splits dest: fs_mkdir_keeps)

lemma create_pdf_not_already: "fst (create_pdf sv env tn s) \<noteq> Inl AlreadyProcessingError"
proof -
  have "Path args \<noteq> Inl AlreadyProcessingError" for args
    by (auto simp: Path_def split: option.splits)
  moreover have "fs_mkdir True fsys p \<noteq> Inl AlreadyProcessingError" for fsys p
    by (auto simp: fs_mkdir_def split: option.splits dest: create_node_errors)
  ultimately show ?thesis
    by (auto simp: create_pdf_eq split: sum.splits)
qed


text \<open>
  The loop over the pages, had it a writer to run with: it appends one pair per source
  file, in the order of the source files.
\<close>

lemma create_pdf_pages_appends:
  "create_pdf_pages sv env source_files writer s = (Inr writer', s') \<Longrightarrow>
     output_path writer' = output_path writer \<and>
     map fst (appended writer') = map fst (appended writer) @ source_files"
proof (induction source_files arbitrary: writer s)
  case Nil
  then show ?case by (simp add: ok_def)
next
  case (Cons page_path rest)
  from Cons.prems obtain page_text s2 where
    "create_pdf_pages sv env rest (PDFWriter_append writer page_path page_text) s2 = (Inr writer', s')"
    by (auto simp: andThen_def extract_text_def upload_page_text_def split: sum.splits)
  from Cons.IH[OF this] show ?case by (simp add: PDFWriter_append_def)
qed

section \<open>Status advance\<close>

lemma AeonClient_getattr_post: "AeonClient_getattr ''post'' s = (Inl (AttributeError ''post''), s)"
  by (simp add: AeonClient_getattr_def AeonClient_attributes_def raise_def)

lemma update_transaction_status_raises:
  "update_transaction_status sv env self transaction_number s = (Inl (AttributeError ''post''), s)"
  by (simp add: update_transaction_status_def andThen_def AeonClient_getattr_post)


text \<open>
  C5. The claim: \<open>update_transaction_status\<close> issues an HTTP POST to
  \<^verbatim>\<open>/Requests/{transaction_number}/route\<close> with the new status in its body. The code calls
  \<^verbatim>\<open>self.aeon_client.post\<close>, and \<open>AeonClient\<close> defines \<^verbatim>\<open>get\<close> only: the call raises
  \<^verbatim>\<open>AttributeError\<close> and no request is made, for every transaction number
  (\<open>update_transaction_status_raises\<close>); here for \<open>T100\<close>.
\<close>

theorem status_advance_raises:
  "update_transaction_status example_services example_env example_creator ''T100'' example_world
     = (Inl (AttributeError ''post''), example_world)"
  by code_simp

section \<open>One transaction, and the batch\<close>

lemma transaction_body_eq:
  "transaction_body sv env self t s =
     (case dict_getitem (lowercased t) ''transactionnumber'' of
        Inl e \<Rightarrow> (Inl e, s)
      | Inr tn \<Rightarrow>
          (case set_transaction_processing env tn s of
             (Inl e, s1) \<Rightarrow> (Inl e, s1)
           | (Inr u, s1) \<Rightarrow>
               (case create_pdf sv env tn s1 of
                  (Inl e, s2) \<Rightarrow> (Inl e, s2)
                | (Inr pdf_path, s2) \<Rightarrow> (Inl (AttributeError ''post''), s2))))"
  by (simp add: transaction_body_def andThen_def lift_def optimize_pdf_def ok_def
        update_transaction_status_raises split: sum.splits prod.splits)

lemma transaction_body_after_guard:
  assumes "dict_getitem (lowercased t) ''transactionnumber'' = Inr tn"
      and "fst (set_transaction_processing env tn s) = Inr ()"
  shows "fst (transaction_body sv env self t s)
           = map_sum id (\<lambda>_. ()) (fst (create_pdf sv env tn (snd (set_transaction_processing env tn s))))"
    and "snd (transaction_body sv env self t s)
           = snd (create_pdf sv env tn (snd (set_transaction_processing env tn s)))"
proof -
  obtain s1 where g: "set_transaction_processing env tn s = (Inr (), s1)"
    using assms(2) by (cases "set_transaction_processing env tn s") auto
  obtain e s2 where c: "create_pdf sv env tn s1 = (Inl e, s2)"
    using create_pdf_raises[of sv env tn s1] by (cases "create_pdf sv env tn s1") auto
  show "fst (transaction_body sv env self t s)
           = map_sum id (\<lambda>_. ()) (fst (create_pdf sv env tn (snd (set_transaction_processing env tn s))))"
    by (simp add: transaction_body_eq assms(1) g c)
  show "snd (transaction_body sv env self t s)
           = snd (create_pdf sv env tn (snd (set_transaction_processing env tn s)))"
    by (simp add: transaction_body_eq assms(1) g c)
qed

lemma transaction_body_trace: "trace (snd (transaction_body sv env self t s)) = trace s"
proof (cases "dict_getitem (lowercased t) ''transactionnumber''")
  case (Inl e)
  then show ?thesis by (simp add: transaction_body_eq)
next
  case (Inr tn)
  obtain r s1 where g: "set_transaction_processing env tn s = (r, s1)" by force
  have t1: "trace s1 = trace s" using set_transaction_processing_trace[of env tn s] g by simp
  obtain r' s2 where c: "create_pdf sv env tn s1 = (r', s2)" by force
  have t2: "trace s2 = trace s1" using create_pdf_trace[of sv env tn s1] c by simp
  show ?thesis using Inr g c t1 t2 by (simp add: transaction_body_eq split: sum.splits)
qed

lemma transaction_body_documents: "documents (snd (transaction_body sv env self t s)) = documents s"
proof (cases "dict_getitem (lowercased t) ''transactionnumber''")
  case (Inl e)
  then show ?thesis by (simp add: transaction_body_eq)
next
  case (Inr tn)
  obtain r s1 where g: "set_transaction_processing env tn s = (r, s1)" by force
  have t1: "documents s1 = documents s" using set_transaction_processing_documents[of env tn s] g by simp
  obtain r' s2 where c: "create_pdf sv env tn s1 = (r', s2)" by force
  have t2: "documents s2 = documents s1" using create_pdf_documents[of sv env tn s1] c by simp
  show ?thesis using Inr g c t1 t2 by (simp add: transaction_body_eq split: sum.splits)
qed

lemma transaction_body_raises: "\<exists>e. fst (transaction_body sv env self t s) = Inl e"
  by (simp add: transaction_body_eq split: sum.splits prod.splits)

lemma process_transaction_eq:
  "process_transaction sv env self t s =
     (case transaction_body sv env self t s of
        (Inl e, s') \<Rightarrow>
          (Inr (), emit (if e = AlreadyProcessingError
                         then LogAlreadyProcessing (lowercased t ''transactionnumber'')
                         else LogError e) s')
      | (Inr u, s') \<Rightarrow> (Inr (), s'))"
  by (simp add: process_transaction_def try_except_def logging_error_def split: sum.splits prod.splits)

lemma process_transaction_returns: "fst (process_transaction sv env self t s) = Inr ()"
  by (simp add: process_transaction_eq split: sum.splits prod.splits)

lemma process_transaction_fs:
  "fs (snd (process_transaction sv env self t s)) = fs (snd (transaction_body sv env self t s))"
  by (simp add: process_transaction_eq emit_def split: sum.splits prod.splits)

lemma process_transaction_documents:
  "documents (snd (process_transaction sv env self t s)) = documents s"
proof -
  obtain r s' where b: "transaction_body sv env self t s = (r, s')" by force
  have "documents s' = documents s" using transaction_body_documents[of sv env self t s] b by simp
  then show ?thesis by (simp add: process_transaction_eq b emit_def split: sum.splits)
qed

lemma process_transaction_trace:
  "\<exists>ev. trace (snd (process_transaction sv env self t s)) = trace s @ [ev]
        \<and> (ev = LogAlreadyProcessing (lowercased t ''transactionnumber'')
           \<or> (\<exists>e. ev = LogError e \<and> fst (transaction_body sv env self t s) = Inl e))"
proof -
  obtain e s' where b: "transaction_body sv env self t s = (Inl e, s')"
    using transaction_body_raises[of sv env self t s]
    by (cases "transaction_body sv env self t s") auto
  have "trace s' = trace s" using transaction_body_trace[of sv env self t s] b by simp
  then show ?thesis by (simp add: process_transaction_eq b emit_def)
qed

lemma process_transaction_prefix:
  "prefix (trace s) (trace (snd (process_transaction sv env self t s)))"
  using process_transaction_trace[of sv env self t s] by (auto simp: prefix_def)

lemma for_transactions_Cons:
  "for_transactions sv env self (t # rest) s
     = for_transactions sv env self rest (snd (process_transaction sv env self t s))"
proof -
  obtain s' where "process_transaction sv env self t s = (Inr (), s')"
    using process_transaction_returns[of sv env self t s]
    by (cases "process_transaction sv env self t s") auto
  then show ?thesis by (simp add: andThen_def)
qed

lemma for_transactions_returns: "fst (for_transactions sv env self ts s) = Inr ()"
proof (induction ts arbitrary: s)
  case Nil
  show ?case by (simp add: ok_def)
next
  case (Cons t ts)
  show ?case unfolding for_transactions_Cons by (rule Cons.IH)
qed

lemma for_transactions_append:
  "for_transactions sv env self (xs @ ys) s
     = for_transactions sv env self ys (snd (for_transactions sv env self xs s))"
proof (induction xs arbitrary: s)
  case Nil
  show ?case by (simp add: ok_def)
next
  case (Cons x xs)
  show ?case unfolding append_Cons for_transactions_Cons by (rule Cons.IH)
qed

lemma for_transactions_prefix:
  "prefix (trace s) (trace (snd (for_transactions sv env self ts s)))"
proof (induction ts arbitrary: s)
  case Nil
  show ?case by (simp add: ok_def)
next
  case (Cons t ts)
  have "prefix (trace s) (trace (snd (process_transaction sv env self t s)))"
    by (rule process_transaction_prefix)
  also have "prefix \<dots> (trace (snd (for_transactions sv env self ts (snd (process_transaction sv env self t s)))))"
    by (rule Cons.IH)
  finally show ?case unfolding for_transactions_Cons .
qed

lemma for_transactions_documents:
  "documents (snd (for_transactions sv env self ts s)) = documents s"
proof (induction ts arbitrary: s)
  case Nil
  show ?case by (simp add: ok_def)
next
  case (Cons t ts)
  show ?case unfolding for_transactions_Cons
    by (simp add: Cons.IH process_transaction_documents)
qed


text \<open>
  C8. Constructing the \<open>PdfCreator\<close> raises for every run, before anything is fetched or
  processed: \<^verbatim>\<open>AeonClient()\<close> is called with no argument and its constructor requires
  two, so the entry point ends with \<^verbatim>\<open>TypeError\<close> in the world it started in.
\<close>

theorem entry_point_raises:
  "AeonClient_init [] = Inl TypeError
   \<and> PdfCreator_init sv s = (Inl TypeError, s)
   \<and> main sv env s = (Inl TypeError, s)"
  by (simp add: main_def PdfCreator_init_def andThen_def lift_def)

theorem entry_point_raises_witness:
  "main example_services example_env example_world = (Inl TypeError, example_world)
   \<and> trace (snd (main example_services example_env example_world)) = []"
  using entry_point_raises[of example_services example_world example_env]
  by (simp add: example_world_def)












text \<open>
  C4. The claim: for a transaction with N source images the assembled document has exactly
  N page and text pairs, in ascending order of file name. Transaction \<open>T100\<close> has two
  source images; \<open>create_pdf\<close> raises \<^verbatim>\<open>NameError\<close> at \<^verbatim>\<open>PDFWriter(pdf_path)\<close>, no
  page is extracted and no document is written.
\<close>

theorem two_pages_no_document:
  "collect_tiff_filepaths (fs example_world) [''/'', ''data'', ''T100'']
     = [[''/'', ''data'', ''T100'', ''master'', ''p1.tiff''],
        [''/'', ''data'', ''T100'', ''master'', ''p2.tiff'']]
   \<and> fst (create_pdf example_services example_env ''T100'' example_world) = Inl (NameError ''PDFWriter'')
   \<and> documents (snd (create_pdf example_services example_env ''T100'' example_world)) = []
   \<and> trace (snd (create_pdf example_services example_env ''T100'' example_world)) = []"
  by code_simp

text \<open>
  C2. For every transaction whose processing fails after its guard was acquired, the
  marker is still there when the record is done, the record adds nothing to the trace but
  the log line of the error (so no status-advance request), the failure is caught, and
  the rest of the batch is processed from the world the failed record left.
\<close>

theorem failed_transaction_keeps_guard:
  assumes tn: "dict_getitem (lowercased transaction) ''transactionnumber'' = Inr tn"
      and marker: "Path [env ''IN_PROCESSING_FILE_DIR'', Some tn] = Inr marker"
      and guard: "fst (set_transaction_processing env tn s) = Inr ()"
      and fails: "fst (transaction_body sv env self transaction s) = Inl e"
  shows "Path_exists (fs (snd (process_transaction sv env self transaction s))) marker
       \<and> trace (snd (process_transaction sv env self transaction s)) = trace s @ [LogError e]
       \<and> (\<forall>url body. HttpPost url body \<in> set (trace (snd (process_transaction sv env self transaction s)))
             \<longrightarrow> HttpPost url body \<in> set (trace s))
       \<and> fst (process_transaction sv env self transaction s) = Inr ()
       \<and> for_transactions sv env self (transaction # rest) s
           = for_transactions sv env self rest (snd (process_transaction sv env self transaction s))"
proof -
  let ?s1 = "snd (set_transaction_processing env tn s)"
  let ?w = "snd (process_transaction sv env self transaction s)"
  have held: "Path_exists (fs ?s1) marker"
    using marker guard by (rule guard_held_after_acquire)
  then obtain k where k: "map_of (fs ?s1) marker = Some k"
    by (auto simp: Path_exists_def)
  have "fs ?w = fs (snd (create_pdf sv env tn ?s1))"
    by (simp add: process_transaction_fs transaction_body_after_guard(2)[OF tn guard])
  then have c1: "Path_exists (fs ?w) marker"
    using create_pdf_keeps[OF k, of sv env tn] by (simp add: Path_exists_def)
  have "fst (transaction_body sv env self transaction s)
          = map_sum id (\<lambda>_. ()) (fst (create_pdf sv env tn ?s1))"
    by (rule transaction_body_after_guard(1)[OF tn guard])
  then have "fst (create_pdf sv env tn ?s1) = Inl e"
    using fails by (cases "fst (create_pdf sv env tn ?s1)") auto
  then have ne: "e \<noteq> AlreadyProcessingError"
    using create_pdf_not_already[of sv env tn ?s1] by auto
  obtain s' where b: "transaction_body sv env self transaction s = (Inl e, s')"
    using fails by (cases "transaction_body sv env self transaction s") auto
  have "trace s' = trace s" using transaction_body_trace[of sv env self transaction s] b by simp
  then have c2: "trace ?w = trace s @ [LogError e]"
    using ne by (simp add: process_transaction_eq b emit_def)
  then have c3: "\<forall>url body. HttpPost url body \<in> set (trace ?w) \<longrightarrow> HttpPost url body \<in> set (trace s)"
    by simp
  have c4: "fst (process_transaction sv env self transaction s) = Inr ()"
    by (rule process_transaction_returns)
  have c5: "for_transactions sv env self (transaction # rest) s = for_transactions sv env self rest ?w"
    by (rule for_transactions_Cons)
  from c1 c2 c3 c4 c5 show ?thesis by blast
qed

theorem failed_transaction_keeps_guard_witness:
  "dict_getitem (lowercased example_transaction) ''transactionnumber'' = Inr ''T100''
   \<and> Path [example_env ''IN_PROCESSING_FILE_DIR'', Some ''T100''] = Inr [''/'', ''locks'', ''T100'']
   \<and> fst (set_transaction_processing example_env ''T100'' example_world) = Inr ()
   \<and> fst (transaction_body example_services example_env example_creator example_transaction example_world)
       = Inl (NameError ''PDFWriter'')
   \<and> Path_exists (fs (snd (process_transaction example_services example_env example_creator
                              example_transaction example_world))) [''/'', ''locks'', ''T100'']
   \<and> trace (snd (process_transaction example_services example_env example_creator
                     example_transaction example_world)) = [LogError (NameError ''PDFWriter'')]
   \<and> for_transactions example_services example_env example_creator
         [example_transaction, empty_transaction] example_world
       = for_transactions example_services example_env example_creator [empty_transaction]
           (snd (process_transaction example_services example_env example_creator
                   example_transaction example_world))"
proof -
  have h1: "dict_getitem (lowercased example_transaction) ''transactionnumber'' = Inr ''T100''"
    by code_simp
  have h2: "Path [example_env ''IN_PROCESSING_FILE_DIR'', Some ''T100''] = Inr [''/'', ''locks'', ''T100'']"
    by code_simp
  have h3: "fst (set_transaction_processing example_env ''T100'' example_world) = Inr ()"
    by code_simp
  have h4: "fst (transaction_body example_services example_env example_creator example_transaction example_world)
       = Inl (NameError ''PDFWriter'')"
    by code_simp
  have t0: "trace example_world = []" by (simp add: example_world_def)
  note t = failed_transaction_keeps_guard[OF h1 h2 h3 h4, of "[empty_transaction]"]
  from t have a: "Path_exists (fs (snd (process_transaction example_services example_env example_creator
                              example_transaction example_world))) [''/'', ''locks'', ''T100'']"
    by blast
  from t t0 have b: "trace (snd (process_transaction example_services example_env example_creator
                     example_transaction example_world)) = [LogError (NameError ''PDFWriter'')]"
    by simp
  from t have c: "for_transactions example_services example_env example_creator
         [example_transaction, empty_transaction] example_world
       = for_transactions example_services example_env example_creator [empty_transaction]
           (snd (process_transaction example_services example_env example_creator
                   example_transaction example_world))"
    by blast
  from h1 h2 h3 h4 a b c show ?thesis by blast
qed

text \<open>
  C6. The claim: with zero source images, assembly still produces a document and the
  pipeline goes on to status advance and guard release. Transaction \<open>T400\<close> has no source
  image; \<open>create_pdf\<close> raises \<^verbatim>\<open>NameError\<close>, the record is logged as failed, no document
  is written, no request is made and the marker stays.
\<close>

theorem zero_pages_no_document:
  "collect_tiff_filepaths (fs example_world) [''/'', ''data'', ''T400''] = []
   \<and> fst (create_pdf example_services example_env ''T400'' example_world) = Inl (NameError ''PDFWriter'')
   \<and> fst (process_transaction example_services example_env example_creator empty_transaction example_world)
       = Inr ()
   \<and> trace (snd (process_transaction example_services example_env example_creator empty_transaction
                     example_world)) = [LogError (NameError ''PDFWriter'')]
   \<and> documents (snd (process_transaction example_services example_env example_creator empty_transaction
                         example_world)) = []
   \<and> Path_exists (fs (snd (process_transaction example_services example_env example_creator
                              empty_transaction example_world))) [''/'', ''locks'', ''T400'']"
  by code_simp

text \<open>
  C7. The records of a batch are processed in the order the tracking service returned
  them, one after the other: for every record of the batch, the run is the processing of
  the records before it, then of the record itself, then of the records after it, each
  starting in the world the one before left; the trace only grows, so all that a record
  does comes after all that the records before it did and before anything a later record
  does. The loop always runs to its end.
\<close>

theorem batch_in_order_returned:
  assumes fetch: "get_transactions_in_status sv self (env ''SOURCE_TRANSACTION_STATUS'') s
                    = (Inr (before @ transaction # after), s0)"
  shows "handle_new_transactions sv env self s
           = for_transactions sv env self after
               (snd (process_transaction sv env self transaction
                   (snd (for_transactions sv env self before s0))))
       \<and> prefix (trace s0) (trace (snd (for_transactions sv env self before s0)))
       \<and> prefix (trace (snd (for_transactions sv env self before s0)))
           (trace (snd (process_transaction sv env self transaction
                   (snd (for_transactions sv env self before s0)))))
       \<and> prefix (trace (snd (process_transaction sv env self transaction
                   (snd (for_transactions sv env self before s0)))))
           (trace (snd (handle_new_transactions sv env self s)))
       \<and> fst (handle_new_transactions sv env self s) = Inr ()"
proof -
  let ?s1 = "snd (for_transactions sv env self before s0)"
  let ?s2 = "snd (process_transaction sv env self transaction ?s1)"
  have "handle_new_transactions sv env self s
          = for_transactions sv env self (before @ transaction # after) s0"
    by (simp add: handle_new_transactions_def andThen_def fetch)
  also have "\<dots> = for_transactions sv env self (transaction # after) ?s1"
    by (rule for_transactions_append)
  also have "\<dots> = for_transactions sv env self after ?s2"
    by (rule for_transactions_Cons)
  finally have c1: "handle_new_transactions sv env self s = for_transactions sv env self after ?s2" .
  have c2: "prefix (trace s0) (trace ?s1)" by (rule for_transactions_prefix)
  have c3: "prefix (trace ?s1) (trace ?s2)" by (rule process_transaction_prefix)
  have c4: "prefix (trace ?s2) (trace (snd (handle_new_transactions sv env self s)))"
    unfolding c1 by (rule for_transactions_prefix)
  have c5: "fst (handle_new_transactions sv env self s) = Inr ()"
    unfolding c1 by (rule for_transactions_returns)
  from c1 c2 c3 c4 c5 show ?thesis by blast
qed

theorem batch_in_order_returned_witness:
  "get_transactions_in_status example_services example_creator
       (example_env ''SOURCE_TRANSACTION_STATUS'') example_world
     = (Inr ([empty_transaction] @ unnumbered_transaction # [example_transaction]),
        emit (HttpGet ''https://aeon.example.org/api/odata/Requests?$filter=photoduplicationstatus eq 22'')
          example_world)
   \<and> fst (handle_new_transactions example_services example_env example_creator example_world) = Inr ()
   \<and> trace (snd (handle_new_transactions example_services example_env example_creator example_world))
       = [HttpGet ''https://aeon.example.org/api/odata/Requests?$filter=photoduplicationstatus eq 22'',
          LogError (NameError ''PDFWriter''),
          LogError (KeyError ''transactionnumber''),
          LogError (NameError ''PDFWriter'')]"
proof -
  let ?s0 = "emit (HttpGet ''https://aeon.example.org/api/odata/Requests?$filter=photoduplicationstatus eq 22'')
          example_world"
  have h: "get_transactions_in_status example_services example_creator
       (example_env ''SOURCE_TRANSACTION_STATUS'') example_world
     = (Inr ([empty_transaction] @ unnumbered_transaction # [example_transaction]), ?s0)"
    by code_simp
  note t = batch_in_order_returned[where before = "[empty_transaction]"
      and transaction = unnumbered_transaction and after = "[example_transaction]"
      and env = example_env, OF h]
  have e: "trace (snd (for_transactions example_services example_env example_creator [example_transaction]
               (snd (process_transaction example_services example_env example_creator unnumbered_transaction
                   (snd (for_transactions example_services example_env example_creator [empty_transaction] ?s0))))))
       = [HttpGet ''https://aeon.example.org/api/odata/Requests?$filter=photoduplicationstatus eq 22'',
          LogError (NameError ''PDFWriter''),
          LogError (KeyError ''transactionnumber''),
          LogError (NameError ''PDFWriter'')]"
    by code_simp
  from t have a: "fst (handle_new_transactions example_services example_env example_creator example_world) = Inr ()"
    by blast
  from t e have b: "trace (snd (handle_new_transactions example_services example_env example_creator example_world))
       = [HttpGet ''https://aeon.example.org/api/odata/Requests?$filter=photoduplicationstatus eq 22'',
          LogError (NameError ''PDFWriter''),
          LogError (KeyError ''transactionnumber''),
          LogError (NameError ''PDFWriter'')]"
    by simp
  from h a b show ?thesis by blast
qed

end
